theory Spec2Isabelle
  imports Complex_Main
begin

section \<open>The product catalog of the storefront (ProductCatalog.tsx)\<close>

text \<open>
  The component is embedded as pure functions over an explicit component state: every
  React state cell and every shared atom is a field of \<open>catalog_state\<close>, every handler
  returns the updated state together with the list of calls it made to its collaborators
  (the query and mutation hooks, the router, the connect callback), and the render
  function returns the element tree as a value. A \<open>TypeError\<close> thrown while rendering is
  the \<open>Inl\<close> branch of the result.

  A JavaScript \<open>number\<close> is modelled by an exact rational: the arithmetic of the model has
  no rounding and no overflow. For a price that is a whole number of minor units below
  \<open>2 ^ 40\<close> every intermediate value of the fee formula is an integer or a half integer
  below \<open>2 ^ 53\<close>, which a binary64 float holds exactly, so there the two agree.
\<close>

subsection \<open>Values\<close>

type_synonym number = rat

text \<open>
  A value that came out of \<open>JSON.parse\<close> or over the wire from the API. The JavaScript
  \<open>undefined\<close> is \<open>None\<close> of \<open>json option\<close>, \<open>null\<close> is \<open>Some JNull\<close>.
\<close>

datatype json =
    JNull
  | JBool bool
  | JNum number
  | JStr string
  | JArr "json list"
  | JObj "(string \<times> json) list"

datatype js_error = TypeError

text \<open>Truthiness, as the condition of \<open>?:\<close> reads a value.\<close>

fun truthy :: "json option \<Rightarrow> bool" where
  "truthy None = False"
| "truthy (Some JNull) = False"
| "truthy (Some (JBool b)) = b"
| "truthy (Some (JNum n)) = (n \<noteq> 0)"
| "truthy (Some (JStr s)) = (s \<noteq> [])"
| "truthy (Some (JArr xs)) = True"
| "truthy (Some (JObj kvs)) = True"

text \<open>\<open>v ?? d\<close>: the default replaces \<open>undefined\<close> and \<open>null\<close> only.\<close>

fun nullish :: "json option \<Rightarrow> bool" where
  "nullish None = True"
| "nullish (Some JNull) = True"
| "nullish (Some v) = False"

definition coalesce :: "json option \<Rightarrow> json \<Rightarrow> json" where
  "coalesce v d = (case v of None \<Rightarrow> d | Some JNull \<Rightarrow> d | Some x \<Rightarrow> x)"

text \<open>
  \<open>metadata?.k\<close> for the keys the component reads (\<open>imageUrl\<close>, \<open>region\<close>, \<open>farmName\<close>,
  \<open>strength\<close>): \<open>undefined\<close> on \<open>undefined\<close> and \<open>null\<close>, the member of an object, and
  \<open>undefined\<close> on a string, number, boolean or array, none of which has such a property.
\<close>

fun opt_chain :: "json option \<Rightarrow> string \<Rightarrow> json option" where
  "opt_chain (Some (JObj kvs)) k = map_of kvs k"
| "opt_chain v k = None"

definition startsWith :: "string \<Rightarrow> string \<Rightarrow> bool" where
  "startsWith s pre = (take (length pre) s = pre)"

subsection \<open>Data model\<close>

record product =
  product_id :: int
  name :: string
  price :: number
  stock :: "number option"
  hidden :: "bool option"
  nftMetadata :: "json option"
  process :: "string option"

record page =
  page_products :: "product list"
  nextCursor :: "int option"

text \<open>What \<open>useInfiniteQuery\<close> hands to the component on a render.\<close>

record infinite_query =
  data :: "page list option"
  hasNextPage :: "bool option"
  isFetchingNextPage :: bool

datatype callback = Callback nat

record props =
  isConnected :: "bool option"
  onConnect :: "callback option"

text \<open>
  The environment of the component: the gateway variable of the build, the translation
  function \<open>t\<close>, and the two built-ins \<open>JSON.parse\<close> (\<open>None\<close> when it throws) and
  \<open>String.prototype.toLowerCase\<close>.
\<close>

record env =
  NEXT_PUBLIC_GATEWAY_URL :: "string option"
  translate :: "string \<Rightarrow> string"
  JSON_parse :: "string \<Rightarrow> json option"
  toLowerCase :: "string \<Rightarrow> string"

text \<open>
  The state of the component: \<open>products\<close> and \<open>addingToCart\<close> are its own \<open>useState\<close>
  cells, the other four are the shared atoms \<open>searchResultsAtom\<close>, \<open>isLoadingAtom\<close>,
  \<open>quantityOfProducts\<close> and \<open>searchQueryAtom\<close>.
\<close>

record catalog_state =
  products :: "product list"
  results :: "product list"
  isLoadingResults :: bool
  quantity :: number
  query :: string
  addingToCart :: "int option"

datatype effect =
    OnConnect callback
  | AddToCart int number
  | RefetchCart
  | FetchNextPage
  | RouterPush int

record card =
  key_prop :: int
  image_prop :: string
  region_prop :: json
  farmName_prop :: json
  variety_prop :: string
  price_prop :: number
  stock_prop :: "number option"
  badgeText_prop :: string
  isConnected_prop :: "bool option"
  isAddingToShoppingCart_prop :: bool


subsection \<open>Price\<close>

definition MARKET_FEE_BPS :: number where
  "MARKET_FEE_BPS = 5000"

definition calculateTotalPrice :: "number \<Rightarrow> number" where
  "calculateTotalPrice pr = (let fee = (pr * MARKET_FEE_BPS) / 10000 in pr + fee)"

subsection \<open>Page accumulation\<close>




subsection \<open>Infinite scroll\<close>

record window_metrics =
  innerHeight :: number
  scrollY :: number
  offsetHeight :: number




definition accessProductDetails :: "int \<Rightarrow> effect list" where
  "accessProductDetails productId = [RouterPush productId]"

subsection \<open>Rendering one product\<close>

definition parse_metadata :: "env \<Rightarrow> product \<Rightarrow> json option" where
  "parse_metadata e p =
     (case nftMetadata p of
        Some (JStr s) \<Rightarrow>
          (case JSON_parse e s of
             Some v \<Rightarrow> Some v
           | None \<Rightarrow> Some JNull)
      | other \<Rightarrow> other)"

definition gateway_text :: "env \<Rightarrow> string" where
  "gateway_text e = (case NEXT_PUBLIC_GATEWAY_URL e of None \<Rightarrow> ''undefined'' | Some g \<Rightarrow> g)"

definition imageUrl :: "env \<Rightarrow> json option \<Rightarrow> js_error + string" where
  "imageUrl e metadata =
     (let v = opt_chain metadata ''imageUrl'' in
      if truthy v then
        (case v of
           Some (JStr s) \<Rightarrow>
             Inr (if startsWith s ''Qm'' then gateway_text e @ ''/ipfs/'' @ s else s)
         | _ \<Rightarrow> Inl TypeError)
      else Inr ''/images/cafe1.webp'')"

definition badgeText :: "env \<Rightarrow> json option \<Rightarrow> js_error + string" where
  "badgeText e metadata =
     (let v = opt_chain metadata ''strength'' in
      if nullish v then Inr (translate e (''strength.'' @ ''undefined''))
      else
        (case v of
           Some (JStr s) \<Rightarrow> Inr (translate e (''strength.'' @ toLowerCase e s))
         | _ \<Rightarrow> Inl TypeError))"

definition isAddingToShoppingCart :: "catalog_state \<Rightarrow> product \<Rightarrow> bool" where
  "isAddingToShoppingCart st p = (addingToCart st = Some (product_id p))"

definition renderProduct ::
  "env \<Rightarrow> props \<Rightarrow> catalog_state \<Rightarrow> product \<Rightarrow> js_error + card option" where
  "renderProduct e pr st p =
     (if hidden p = Some True then Inr None
      else
        (let metadata = parse_metadata e p in
         case imageUrl e metadata of
           Inl err \<Rightarrow> Inl err
         | Inr img \<Rightarrow>
             (let totalPrice = calculateTotalPrice (price p) in
              case badgeText e metadata of
                Inl err \<Rightarrow> Inl err
              | Inr badge \<Rightarrow>
                  Inr (Some \<lparr>
                    key_prop = product_id p,
                    image_prop = img,
                    region_prop = coalesce (opt_chain metadata ''region'') (JStr ''''),
                    farmName_prop = coalesce (opt_chain metadata ''farmName'') (JStr ''''),
                    variety_prop = translate e (name p),
                    price_prop = totalPrice,
                    stock_prop = stock p,
                    badgeText_prop = badge,
                    isConnected_prop = isConnected pr,
                    isAddingToShoppingCart_prop = isAddingToShoppingCart st p
                  \<rparr>))))"

subsection \<open>Add to cart\<close>

text \<open>
  \<open>!isConnected && onConnect\<close> is the callback when the wallet is not connected and a
  callback was supplied, and falsy otherwise.
\<close>

definition handleAddToCart ::
  "props \<Rightarrow> product \<Rightarrow> catalog_state \<Rightarrow> catalog_state \<times> effect list" where
  "handleAddToCart pr p st =
     (case (if isConnected pr = Some True then None else onConnect pr) of
        Some cb \<Rightarrow> (st, [OnConnect cb])
      | None \<Rightarrow>
          (st\<lparr>addingToCart := Some (product_id p)\<rparr>, [AddToCart (product_id p) 1]))"






subsection \<open>Clearing the search\<close>

definition setQuantityProducts :: "number \<Rightarrow> catalog_state \<Rightarrow> catalog_state" where
  "setQuantityProducts v st = st\<lparr>quantity := v\<rparr>"

definition setSearchResults :: "product list \<Rightarrow> catalog_state \<Rightarrow> catalog_state" where
  "setSearchResults v st = st\<lparr>results := v\<rparr>"

definition setIsLoading :: "bool \<Rightarrow> catalog_state \<Rightarrow> catalog_state" where
  "setIsLoading v st = st\<lparr>isLoadingResults := v\<rparr>"

definition setQuery :: "string \<Rightarrow> catalog_state \<Rightarrow> catalog_state" where
  "setQuery v st = st\<lparr>query := v\<rparr>"

definition clearSearch :: "catalog_state \<Rightarrow> catalog_state" where
  "clearSearch st =
     setQuery '''' (setIsLoading False (setSearchResults [] (setQuantityProducts 0 st)))"

subsection \<open>The rendered catalog\<close>








subsection \<open>Example data\<close>

text \<open>
  Concrete inputs for the examples below. The parser of \<open>sample_env\<close> stands for
  \<open>JSON.parse\<close> on the two texts the examples use: it returns \<open>null\<close> for the text
  \<open>null\<close> and throws on the malformed text \<open>{region:\<close>. \<open>no_props\<close> is how the home
  page mounts the catalog (no props at all).
\<close>

definition sample_env :: env where
  "sample_env = \<lparr>NEXT_PUBLIC_GATEWAY_URL = Some ''https://gw.example'',
     translate = (\<lambda>k. k),
     JSON_parse = (\<lambda>s. if s = ''null'' then Some JNull else None),
     toLowerCase = (\<lambda>s. s)\<rparr>"

definition no_props :: props where
  "no_props = \<lparr>isConnected = None, onConnect = None\<rparr>"

definition wallet_props :: props where
  "wallet_props = \<lparr>isConnected = Some False, onConnect = Some (Callback 0)\<rparr>"

definition initial_state :: catalog_state where
  "initial_state = \<lparr>products = [], results = [], isLoadingResults = False, quantity = 0,
     query = '''', addingToCart = None\<rparr>"

definition coffee :: product where
  "coffee = \<lparr>product_id = 1, name = ''Tarrazu'', price = 10, stock = Some 4,
     hidden = Some False, nftMetadata = None, process = None\<rparr>"

definition ipfs_coffee :: product where
  "ipfs_coffee = coffee\<lparr>product_id := 2,
     nftMetadata := Some (JObj [(''imageUrl'', JStr ''QmX1''), (''region'', JStr ''Huila'')])\<rparr>"

definition web_coffee :: product where
  "web_coffee = coffee\<lparr>product_id := 3,
     nftMetadata := Some (JObj [(''imageUrl'', JStr ''/img/a.png'')])\<rparr>"

definition hidden_coffee :: product where
  "hidden_coffee = coffee\<lparr>product_id := 4, hidden := Some True\<rparr>"

definition broken_coffee :: product where
  "broken_coffee = coffee\<lparr>nftMetadata := Some (JStr ''{region:'')\<rparr>"

definition coffee_card :: card where
  "coffee_card = \<lparr>key_prop = 1, image_prop = ''/images/cafe1.webp'', region_prop = JStr '''',
     farmName_prop = JStr '''', variety_prop = ''Tarrazu'', price_prop = 15, stock_prop = Some 4,
     badgeText_prop = ''strength.undefined'', isConnected_prop = None,
     isAddingToShoppingCart_prop = False\<rparr>"

definition ipfs_card :: card where
  "ipfs_card = coffee_card\<lparr>key_prop := 2, image_prop := ''https://gw.example/ipfs/QmX1'',
     region_prop := JStr ''Huila''\<rparr>"

definition web_card :: card where
  "web_card = coffee_card\<lparr>key_prop := 3, image_prop := ''/img/a.png''\<rparr>"

definition first_fetch :: infinite_query where
  "first_fetch = \<lparr>data = None, hasNextPage = None, isFetchingNextPage = False\<rparr>"

definition idle_query :: infinite_query where
  "idle_query =
     \<lparr>data = Some [\<lparr>page_products = [coffee, hidden_coffee], nextCursor = Some 3\<rparr>],
      hasNextPage = Some True, isFetchingNextPage = False\<rparr>"

definition fetching_query :: infinite_query where
  "fetching_query = idle_query\<lparr>isFetchingNextPage := True\<rparr>"

definition at_bottom :: window_metrics where
  "at_bottom = \<lparr>innerHeight = 800, scrollY = 1150, offsetHeight = 2000\<rparr>"

lemmas sample_defs =
  sample_env_def no_props_def wallet_props_def initial_state_def coffee_def coffee_card_def
  ipfs_coffee_def web_coffee_def hidden_coffee_def broken_coffee_def ipfs_card_def web_card_def
  idle_query_def fetching_query_def at_bottom_def first_fetch_def

lemmas render_defs =
  renderProduct_def parse_metadata_def imageUrl_def badgeText_def coalesce_def
  isAddingToShoppingCart_def calculateTotalPrice_def MARKET_FEE_BPS_def gateway_text_def
  startsWith_def Let_def


section \<open>Properties\<close>

subsection \<open>Auxiliary facts\<close>






lemma renderProduct_card_image:
  "renderProduct e pr st p = Inr (Some c) \<Longrightarrow>
   imageUrl e (parse_metadata e p) = Inr (image_prop c)"
  by (auto simp: renderProduct_def Let_def split: if_splits sum.splits)

lemma nullish_not_truthy: "nullish v \<Longrightarrow> \<not> truthy v"
  by (cases v rule: nullish.cases) auto




subsection \<open>Price\<close>



subsection \<open>Clearing the search\<close>

text \<open>
  Claim C2. From any shared search state, \<open>clearSearch\<close> leaves the query empty, the result
  count 0, the result list empty and the loading flag false, all four at once, and it
  gives none of the four any other value: the state after it is the state before it with
  exactly these four values written, whatever the four held before, and the component's
  own cells are untouched.
\<close>

theorem clearSearch_resets:
  "query (clearSearch st) = ''''
   \<and> quantity (clearSearch st) = 0
   \<and> results (clearSearch st) = []
   \<and> isLoadingResults (clearSearch st) = False
   \<and> clearSearch st
       = st\<lparr>quantity := 0, results := [], isLoadingResults := False, query := ''''\<rparr>
   \<and> clearSearch (st\<lparr>quantity := n, results := rs, isLoadingResults := b, query := s\<rparr>)
       = clearSearch st
   \<and> products (clearSearch st) = products st
   \<and> addingToCart (clearSearch st) = addingToCart st"
  by (simp add: clearSearch_def setQuery_def setIsLoading_def setSearchResults_def
      setQuantityProducts_def)

subsection \<open>Hidden products\<close>



subsection \<open>Image resolution\<close>

text \<open>
  Claim C4. For every rendered product the image of the card follows from the metadata's
  image value by three cases: a string that starts with \<open>Qm\<close> gives the configured gateway
  base followed by \<open>/ipfs/\<close> and the value; any other non-empty string is used unchanged;
  and when there is no image value (\<open>undefined\<close> or \<open>null\<close>, also because there is no
  metadata) the image is the fallback asset \<open>/images/cafe1.webp\<close>.
\<close>

theorem image_resolution:
  assumes "renderProduct e pr st p = Inr (Some c)"
  shows "(opt_chain (parse_metadata e p) ''imageUrl'' = Some (JStr s) \<and> startsWith s ''Qm''
            \<and> NEXT_PUBLIC_GATEWAY_URL e = Some g \<longrightarrow>
          image_prop c = g @ ''/ipfs/'' @ s)
       \<and> (opt_chain (parse_metadata e p) ''imageUrl'' = Some (JStr s) \<and> s \<noteq> []
            \<and> \<not> startsWith s ''Qm'' \<longrightarrow>
          image_prop c = s)
       \<and> (nullish (opt_chain (parse_metadata e p) ''imageUrl'') \<longrightarrow>
          image_prop c = ''/images/cafe1.webp'')"
proof -
  note img = renderProduct_card_image [OF assms]
  show ?thesis
  proof (intro conjI impI)
    assume "opt_chain (parse_metadata e p) ''imageUrl'' = Some (JStr s) \<and> startsWith s ''Qm''
      \<and> NEXT_PUBLIC_GATEWAY_URL e = Some g"
    with img show "image_prop c = g @ ''/ipfs/'' @ s"
      by (auto simp: imageUrl_def gateway_text_def startsWith_def split: if_splits)
  next
    assume "opt_chain (parse_metadata e p) ''imageUrl'' = Some (JStr s) \<and> s \<noteq> []
      \<and> \<not> startsWith s ''Qm''"
    with img show "image_prop c = s"
      by (auto simp: imageUrl_def)
  next
    assume "nullish (opt_chain (parse_metadata e p) ''imageUrl'')"
    from nullish_not_truthy [OF this] img show "image_prop c = ''/images/cafe1.webp''"
      by (simp add: imageUrl_def)
  qed
qed

theorem image_resolution_witness:
  "renderProduct sample_env no_props initial_state ipfs_coffee = Inr (Some ipfs_card)
   \<and> image_prop ipfs_card = ''https://gw.example'' @ ''/ipfs/'' @ ''QmX1''
   \<and> renderProduct sample_env no_props initial_state web_coffee = Inr (Some web_card)
   \<and> image_prop web_card = ''/img/a.png''
   \<and> renderProduct sample_env no_props initial_state coffee = Inr (Some coffee_card)
   \<and> image_prop coffee_card = ''/images/cafe1.webp''"
  using image_resolution [where e = sample_env and pr = no_props and st = initial_state
      and p = ipfs_coffee and c = ipfs_card and s = "''QmX1''" and g = "''https://gw.example''"]
    image_resolution [where e = sample_env and pr = no_props and st = initial_state
      and p = web_coffee and c = web_card and s = "''/img/a.png''"]
    image_resolution [where e = sample_env and pr = no_props and st = initial_state
      and p = coffee and c = coffee_card]
  by (simp add: sample_defs render_defs)

subsection \<open>Infinite scroll\<close>



subsection \<open>Add to cart\<close>

text \<open>
  Claim C6. A click on add-to-cart while the wallet is not connected and a connect callback
  was supplied calls the callback and returns: no cart mutation is issued and the adding
  marker is not set. In every other case (connected, or no callback) the marker is set and
  the mutation is issued.
\<close>

theorem handleAddToCart_connect_gate:
  "(isConnected pr \<noteq> Some True \<and> onConnect pr = Some cb \<longrightarrow>
      handleAddToCart pr p st = (st, [OnConnect cb]))
   \<and> (isConnected pr = Some True \<or> onConnect pr = None \<longrightarrow>
      handleAddToCart pr p st =
        (st\<lparr>addingToCart := Some (product_id p)\<rparr>, [AddToCart (product_id p) 1]))"
  by (auto simp: handleAddToCart_def)

theorem handleAddToCart_connect_gate_witness:
  "isConnected wallet_props \<noteq> Some True \<and> onConnect wallet_props = Some (Callback 0)
   \<and> handleAddToCart wallet_props coffee initial_state = (initial_state, [OnConnect (Callback 0)])
   \<and> onConnect no_props = None
   \<and> handleAddToCart no_props coffee initial_state
       = (initial_state\<lparr>addingToCart := Some 1\<rparr>, [AddToCart 1 1])"
  using handleAddToCart_connect_gate [where pr = wallet_props and cb = "Callback 0"
      and p = coffee and st = initial_state]
    handleAddToCart_connect_gate [where pr = no_props and p = coffee and st = initial_state]
  by (simp add: sample_defs)


subsection \<open>Malformed metadata\<close>

text \<open>
  Claim C8. A product whose \<open>nftMetadata\<close> is a string that \<open>JSON.parse\<close> rejects renders
  without an error: the parsed metadata is \<open>null\<close>, and the product renders exactly as the
  same product with no metadata does, so that (unless it is hidden) it gets a card whose
  region and farm name are the empty string and whose image is the fallback asset.
\<close>

theorem malformed_metadata_defaults:
  assumes "JSON_parse e s = None"
  shows "parse_metadata e (p\<lparr>nftMetadata := Some (JStr s)\<rparr>) = Some JNull
    \<and> renderProduct e pr st (p\<lparr>nftMetadata := Some (JStr s)\<rparr>)
        = renderProduct e pr st (p\<lparr>nftMetadata := None\<rparr>)
    \<and> renderProduct e pr st (p\<lparr>nftMetadata := Some (JStr s)\<rparr>)
        = renderProduct e pr st (p\<lparr>nftMetadata := Some JNull\<rparr>)
    \<and> renderProduct e pr st (p\<lparr>nftMetadata := Some (JStr s)\<rparr>) \<noteq> Inl TypeError
    \<and> (hidden p \<noteq> Some True \<longrightarrow>
         (\<exists>c. renderProduct e pr st (p\<lparr>nftMetadata := Some (JStr s)\<rparr>) = Inr (Some c)
            \<and> region_prop c = JStr '''' \<and> farmName_prop c = JStr ''''
            \<and> image_prop c = ''/images/cafe1.webp''))"
  using assms
  by (simp add: parse_metadata_def renderProduct_def imageUrl_def badgeText_def coalesce_def
      isAddingToShoppingCart_def Let_def)

theorem malformed_metadata_defaults_witness:
  "JSON_parse sample_env ''{region:'' = None
   \<and> hidden coffee \<noteq> Some True
   \<and> renderProduct sample_env no_props initial_state broken_coffee = Inr (Some coffee_card)
   \<and> renderProduct sample_env no_props initial_state broken_coffee
       = renderProduct sample_env no_props initial_state coffee"
  using malformed_metadata_defaults [where e = sample_env and s = "''{region:''"
      and p = coffee and pr = no_props and st = initial_state]
  by (simp add: sample_defs render_defs)

subsection \<open>Skeleton placeholders\<close>




subsection \<open>The adding marker\<close>

text \<open>
  Claim C10. At most one product id is marked as being added at any time, since the marker
  is one slot. Starting add-to-cart for a second product while the mutation of a first is
  still in flight (no callback of it has run) overwrites the marker: both mutations have
  been issued, the marker holds the second id, and the first product is no longer reported
  as adding.
\<close>

theorem single_adding_slot:
  "(isAddingToShoppingCart st a \<and> isAddingToShoppingCart st b \<longrightarrow> product_id a = product_id b)
   \<and> ((isConnected pr = Some True \<or> onConnect pr = None) \<and> product_id a \<noteq> product_id b \<longrightarrow>
        (let (s1, e1) = handleAddToCart pr a st;
             (s2, e2) = handleAddToCart pr b s1
         in isAddingToShoppingCart s1 a
            \<and> e1 @ e2 = [AddToCart (product_id a) 1, AddToCart (product_id b) 1]
            \<and> addingToCart s2 = Some (product_id b)
            \<and> \<not> isAddingToShoppingCart s2 a))"
  by (auto simp: isAddingToShoppingCart_def handleAddToCart_def)

theorem single_adding_slot_witness:
  "onConnect no_props = None \<and> product_id coffee \<noteq> product_id ipfs_coffee
   \<and> handleAddToCart no_props coffee initial_state
       = (initial_state\<lparr>addingToCart := Some 1\<rparr>, [AddToCart 1 1])
   \<and> handleAddToCart no_props ipfs_coffee (initial_state\<lparr>addingToCart := Some 1\<rparr>)
       = (initial_state\<lparr>addingToCart := Some 2\<rparr>, [AddToCart 2 1])
   \<and> isAddingToShoppingCart (initial_state\<lparr>addingToCart := Some 1\<rparr>) coffee
   \<and> \<not> isAddingToShoppingCart (initial_state\<lparr>addingToCart := Some 2\<rparr>) coffee"
  using single_adding_slot [where pr = no_props and a = coffee and b = ipfs_coffee
      and st = initial_state]
  by (simp add: sample_defs handleAddToCart_def isAddingToShoppingCart_def)

end
